theory Spec2Isabelle
  imports Complex_Main "HOL-Library.Multiset"
begin

section \<open>Time\<close>

text \<open>
  A Python \<^verbatim>\<open>datetime\<close> has microsecond resolution, and a \<^verbatim>\<open>timedelta\<close> is an integer
  number of microseconds. In the generators and in the trim operation a clock value is
  the integer number of microseconds since the Unix epoch, \<^verbatim>\<open>dt.timestamp()\<close> is that
  number divided by one million, and \<^verbatim>\<open>int(...)\<close> truncates towards zero: the statements
  about them hold for whatever epoch or cutoff results. The export, whose statement is
  about the cutoff itself, follows the wall clock and the float (second subsection).
\<close>

definition timedelta :: "int \<Rightarrow> int \<Rightarrow> int \<Rightarrow> int" where
  \<comment> \<open>\<^verbatim>\<open>timedelta(days=d, hours=h, minutes=m)\<close>\<close>
  "timedelta days hours minutes = (((days * 24 + hours) * 60 + minutes) * 60) * 1000000"

definition int_timestamp :: "int \<Rightarrow> int" where
  \<comment> \<open>\<^verbatim>\<open>int(dt.timestamp())\<close>: truncation towards zero\<close>
  "int_timestamp dt = (if 0 \<le> dt then dt div 1000000 else - ((- dt) div 1000000))"

subsection \<open>Local time and the float of \<^verbatim>\<open>timestamp()\<close>\<close>

text \<open>
  \<^verbatim>\<open>datetime.now()\<close> is a naive datetime: the wall-clock time of the local time zone,
  here the integer number of microseconds of wall-clock time since 1970-01-01 00:00:00 on
  the wall clock. A \<^verbatim>\<open>timedelta\<close> is subtracted on the wall clock. \<^verbatim>\<open>timestamp()\<close>
  then converts the wall-clock second to POSIX time by the rules of the zone and adds the
  microseconds as a float: \<^verbatim>\<open>seconds + microsecond / 1e6\<close> in double precision.

  The zone is given by two functions, both in seconds east of UTC: the offset in force at
  a POSIX second, and the offset that the conversion takes for a wall-clock second (for a
  wall-clock time that occurs twice or never, the choice of the conversion).
\<close>

record zone =
  utcoffset_at :: "int \<Rightarrow> int"
  utcoffset_of :: "int \<Rightarrow> int"

definition datetime_now :: "zone \<Rightarrow> int \<Rightarrow> int" where
  \<comment> \<open>\<^verbatim>\<open>datetime.now()\<close> at the instant \<open>now\<close>, which is in microseconds of POSIX time\<close>
  "datetime_now z now = now + utcoffset_at z (now div 1000000) * 1000000"

text \<open>
  Rounding of a real to the nearest double, ties to the even significand: a double in
  the normal range has a significand of 53 bits. Overflow and subnormal numbers are not
  modelled; no value of a clock comes near them.
\<close>

definition round_half_even :: "real \<Rightarrow> int" where
  "round_half_even z =
     (let n = \<lfloor>z\<rfloor>; r = z - of_int n
      in if r < 1 / 2 then n else if 1 / 2 < r then n + 1 else if even n then n else n + 1)"

definition round53 :: "real \<Rightarrow> real" where
  "round53 x =
     (if x = 0 then 0
      else (let e = \<lfloor>log 2 \<bar>x\<bar>\<rfloor>; u = 2 powr (of_int e - 52)
            in of_int (round_half_even (x / u)) * u))"

definition datetime_timestamp :: "zone \<Rightarrow> int \<Rightarrow> real" where
  \<comment> \<open>\<^verbatim>\<open>dt.timestamp()\<close> of a naive datetime\<close>
  "datetime_timestamp z dt =
     (let seconds = dt div 1000000 - utcoffset_of z (dt div 1000000);
          microsecond = dt mod 1000000
      in round53 (of_int seconds + round53 (of_int microsecond / 1000000)))"

definition py_int :: "real \<Rightarrow> int" where
  \<comment> \<open>\<^verbatim>\<open>int(x)\<close> of a float: truncation towards zero\<close>
  "py_int x = (if 0 \<le> x then \<lfloor>x\<rfloor> else \<lceil>x\<rceil>)"

section \<open>Synthetic readings (\<^verbatim>\<open>generate_metrics\<close>)\<close>

text \<open>
  One entry of \<^verbatim>\<open>metrics\<close> is the tuple
  \<^verbatim>\<open>(timestamp, timestamp_epoch, temp, util, mem, power)\<close>. Python floats are modelled
  as reals; the code below only compares them.
\<close>

type_synonym metric = "string \<times> int \<times> real \<times> real \<times> real \<times> real"

text \<open>
  The end of one iteration of the \<^verbatim>\<open>while\<close> loop of \<^verbatim>\<open>generate_metrics\<close> in
  \<^verbatim>\<open>db_load_test.py\<close> (lines 94 to 104). The values drawn from \<^verbatim>\<open>random\<close> before
  line 94 are the arguments \<open>temp\<close>, \<open>util\<close>, \<open>mem\<close> and \<open>power_w\<close> (the
  variable \<^verbatim>\<open>power\<close>);
  \<^verbatim>\<open>strftime\<close> is the library's formatting of the display timestamp.
\<close>

definition generate_metrics_entry ::
  "(int \<Rightarrow> string) \<Rightarrow> int \<Rightarrow> real \<Rightarrow> real \<Rightarrow> real \<Rightarrow> real \<Rightarrow> metric" where
  "generate_metrics_entry strftime current_time temp util mem power_w =
     (let temp = max 20 (min 95 temp);
          util = max 0 (min 100 util);
          mem = max 500 (min 12000 mem);
          power_w = max 10 (min 350 power_w);
          timestamp = strftime current_time;
          timestamp_epoch = int_timestamp current_time
      in (timestamp, timestamp_epoch, temp, util, mem, power_w))"

text \<open>
  In \<^verbatim>\<open>db_load_3d_test.py\<close> the variable \<^verbatim>\<open>power\<close> holds a float or, after line 164,
  the string \<^verbatim>\<open>"N/A"\<close>.
\<close>

datatype power_reading = Watts real | NA

text \<open>
  Lines 156 to 174 of \<^verbatim>\<open>db_load_3d_test.py\<close>; \<open>draw\<close> is the value of
  \<^verbatim>\<open>random.random()\<close> on line 163.
\<close>

definition generate_metrics_3d_entry ::
  "(int \<Rightarrow> string) \<Rightarrow> int \<Rightarrow> real \<Rightarrow> real \<Rightarrow> real \<Rightarrow> real \<Rightarrow> real \<Rightarrow> metric" where
  "generate_metrics_3d_entry strftime current_time temp util mem power_w draw =
     (let temp = max 20 (min 95 temp);
          util = max 0 (min 100 util);
          mem = max 500 (min 12000 mem);
          power_w = max 10 (min 350 power_w);
          power_w = (if draw > 0.995 then NA else Watts power_w);
          timestamp = strftime current_time;
          timestamp_epoch = int_timestamp current_time;
          power_w = (case power_w of NA \<Rightarrow> 0 | Watts w \<Rightarrow> w)
      in (timestamp, timestamp_epoch, temp, util, mem, power_w))"

text \<open>The nearest point of the interval from \<open>lo\<close> to \<open>hi\<close>, as the clamp law states it.\<close>

definition nearest_in :: "real \<Rightarrow> real \<Rightarrow> real \<Rightarrow> real" where
  "nearest_in lo hi x = (if x < lo then lo else if hi < x then hi else x)"

section \<open>The SQLite store\<close>

text \<open>
  The exceptions of the modelled code. \<open>OperationalError\<close> is what \<^verbatim>\<open>sqlite3\<close> raises for
  a missing table or column, for a transaction misuse and for an input/output failure.
\<close>

datatype exn = OperationalError | ValueError | AttributeError | PermissionError

text \<open>One row of the table \<^verbatim>\<open>gpu_metrics\<close>, a field for each column.\<close>

record row =
  col_id :: nat
  col_timestamp :: string
  col_timestamp_epoch :: int
  col_temperature :: real
  col_utilization :: real
  col_memory :: real
  col_power :: real

text \<open>
  The database file, as far as the code touches it: the column names of the table
  \<^verbatim>\<open>gpu_metrics\<close> (\<open>None\<close> while the table does not exist), the table and the columns of
  the index \<^verbatim>\<open>idx_gpu_metrics_timestamp_epoch\<close> (\<open>None\<close> while it does not exist), the
  rows in insertion order, and the counter that \<^verbatim>\<open>AUTOINCREMENT\<close> keeps in
  \<^verbatim>\<open>sqlite_sequence\<close>.
\<close>

record database =
  table_columns :: "string list option"
  index_on :: "(string \<times> string list) option"
  table_rows :: "row list"
  sequence :: nat

text \<open>What \<^verbatim>\<open>sqlite3.connect\<close> creates at a path where no file exists.\<close>

definition empty_database :: database where
  "empty_database = \<lparr>table_columns = None, index_on = None, table_rows = [], sequence = 0\<rparr>"

definition gpu_metrics_columns :: "string list" where
  "gpu_metrics_columns =
     [''id'', ''timestamp'', ''timestamp_epoch'', ''temperature'', ''utilization'',
      ''memory'', ''power'']"

definition has_columns :: "string list \<Rightarrow> database \<Rightarrow> bool" where
  \<comment> \<open>the table exists and has every column that a statement names\<close>
  "has_columns cs db =
     (case table_columns db of None \<Rightarrow> False | Some cols \<Rightarrow> list_all (\<lambda>c. c \<in> set cols) cs)"

subsection \<open>The SQL statements of the code\<close>

definition create_table_if_not_exists :: "database \<Rightarrow> database" where
  \<comment> \<open>\<^verbatim>\<open>CREATE TABLE IF NOT EXISTS gpu_metrics (...)\<close>\<close>
  "create_table_if_not_exists db =
     (case table_columns db of
        None \<Rightarrow> db\<lparr>table_columns := Some gpu_metrics_columns, table_rows := []\<rparr>
      | Some cols \<Rightarrow> db)"

definition create_index_if_not_exists :: "database \<Rightarrow> exn + database" where
  \<comment> \<open>\<^verbatim>\<open>CREATE INDEX IF NOT EXISTS idx_gpu_metrics_timestamp_epoch ON gpu_metrics(timestamp_epoch)\<close>\<close>
  "create_index_if_not_exists db =
     (case index_on db of
        Some ix \<Rightarrow> Inr db
      | None \<Rightarrow>
          if has_columns [''timestamp_epoch''] db
          then Inr (db\<lparr>index_on := Some (''gpu_metrics'', [''timestamp_epoch''])\<rparr>)
          else Inl OperationalError)"

definition delete_all :: "database \<Rightarrow> exn + database" where
  \<comment> \<open>\<^verbatim>\<open>DELETE FROM gpu_metrics\<close>\<close>
  "delete_all db =
     (if has_columns [] db then Inr (db\<lparr>table_rows := []\<rparr>) else Inl OperationalError)"

definition delete_older :: "int \<Rightarrow> database \<Rightarrow> exn + database" where
  \<comment> \<open>\<^verbatim>\<open>DELETE FROM gpu_metrics WHERE timestamp_epoch < cutoff_time\<close>\<close>
  "delete_older cutoff_time db =
     (if has_columns [''timestamp_epoch''] db
      then Inr (db\<lparr>table_rows :=
                  filter (\<lambda>r. \<not> col_timestamp_epoch r < cutoff_time) (table_rows db)\<rparr>)
      else Inl OperationalError)"

definition next_id :: "database \<Rightarrow> nat" where
  \<comment> \<open>\<^verbatim>\<open>AUTOINCREMENT\<close>: one more than the largest id ever used in the table\<close>
  "next_id db = Suc (fold max (map col_id (table_rows db)) (sequence db))"

definition append_metric :: "metric \<Rightarrow> database \<Rightarrow> database" where
  \<comment> \<open>the new row of an INSERT, with the id that \<^verbatim>\<open>AUTOINCREMENT\<close> gives it\<close>
  "append_metric m db =
     (case m of (timestamp, timestamp_epoch, temp, util, mem, power_w) \<Rightarrow>
        db\<lparr>table_rows := table_rows db @
               [\<lparr>col_id = next_id db, col_timestamp = timestamp,
                 col_timestamp_epoch = timestamp_epoch, col_temperature = temp,
                 col_utilization = util, col_memory = mem, col_power = power_w\<rparr>],
           sequence := next_id db\<rparr>)"

definition select_count :: "database \<Rightarrow> exn + nat" where
  \<comment> \<open>\<^verbatim>\<open>SELECT COUNT(*) FROM gpu_metrics\<close>\<close>
  "select_count db =
     (if has_columns [] db then Inr (length (table_rows db)) else Inl OperationalError)"

text \<open>
  \<^verbatim>\<open>ORDER BY timestamp_epoch ASC\<close> is modelled as the stable sort of the rows, so rows of
  equal epoch come in insertion order; SQL itself leaves their order open.
\<close>

definition select_window ::
  "int \<Rightarrow> database \<Rightarrow> exn + (string \<times> real \<times> real \<times> real \<times> real) list" where
  \<comment> \<open>\<^verbatim>\<open>SELECT timestamp, temperature, utilization, memory, power FROM gpu_metrics
      WHERE timestamp_epoch > ? ORDER BY timestamp_epoch ASC\<close>\<close>
  "select_window cutoff_time db =
     (if has_columns [''timestamp'', ''temperature'', ''utilization'', ''memory'', ''power'',
                      ''timestamp_epoch''] db
      then Inr (map (\<lambda>r. (col_timestamp r, col_temperature r, col_utilization r,
                           col_memory r, col_power r))
                  (sort_key col_timestamp_epoch
                     (filter (\<lambda>r. col_timestamp_epoch r > cutoff_time) (table_rows db))))
      else Inl OperationalError)"

subsection \<open>The connection\<close>

text \<open>
  A \<^verbatim>\<open>sqlite3\<close> connection in the module's default transaction mode: \<open>disk\<close> is the
  committed content of the file, \<open>txn\<close> the uncommitted working copy while a transaction
  is open. An exception leaves the connection object in the state it had when the
  exception was raised, so a failing call returns that state beside the exception.
\<close>

record connection =
  disk :: database
  txn :: "database option"

type_synonym 'a result = "(exn \<times> connection) + 'a"

definition connect :: "database \<Rightarrow> connection" where
  "connect db = \<lparr>disk = db, txn = None\<rparr>"

definition view :: "connection \<Rightarrow> database" where
  \<comment> \<open>what a statement run on this connection reads\<close>
  "view conn = (case txn conn of None \<Rightarrow> disk conn | Some w \<Rightarrow> w)"

definition commit :: "connection \<Rightarrow> connection" where
  "commit conn = \<lparr>disk = view conn, txn = None\<rparr>"

definition close :: "connection \<Rightarrow> database" where
  \<comment> \<open>closing drops an open transaction: what stays is the committed content\<close>
  "close conn = disk conn"

definition execute_begin :: "connection \<Rightarrow> connection result" where
  \<comment> \<open>\<^verbatim>\<open>conn.execute("BEGIN TRANSACTION")\<close>\<close>
  "execute_begin conn =
     (case txn conn of
        None \<Rightarrow> Inr (conn\<lparr>txn := Some (disk conn)\<rparr>)
      | Some w \<Rightarrow> Inl (OperationalError, conn))"

definition execute_dml :: "(database \<Rightarrow> exn + database) \<Rightarrow> connection \<Rightarrow> connection result" where
  \<comment> \<open>\<^verbatim>\<open>conn.execute\<close> of a DELETE: a transaction is opened when none is open. A statement
      that names a missing table or column is refused before that.\<close>
  "execute_dml stmt conn =
     (case stmt (view conn) of
        Inl e \<Rightarrow> Inl (e, conn)
      | Inr db \<Rightarrow> Inr (conn\<lparr>txn := Some db\<rparr>))"

definition execute_vacuum :: "connection \<Rightarrow> connection result" where
  \<comment> \<open>\<^verbatim>\<open>VACUUM\<close> rewrites the file and leaves the tables as they are; it is refused inside a
      transaction\<close>
  "execute_vacuum conn =
     (case txn conn of None \<Rightarrow> Inr conn | Some w \<Rightarrow> Inl (OperationalError, conn))"

text \<open>
  \<^verbatim>\<open>executemany\<close> runs the INSERT once for each tuple. The argument \<open>fault\<close> is the
  environment: \<open>Some k\<close> when the engine fails (an input/output error, a full disk, an
  interrupt) at the tuple of index \<open>k\<close>, \<open>None\<close> when it does not. The rows inserted before
  the failure stay in the open transaction.
\<close>

fun insert_rows :: "metric list \<Rightarrow> nat option \<Rightarrow> database \<Rightarrow> (exn \<times> database) + database" where
  "insert_rows [] fault db = Inr db"
| "insert_rows (m # ms) fault db =
     (if fault = Some 0 then Inl (OperationalError, db)
      else insert_rows ms (map_option (\<lambda>k. k - 1) fault) (append_metric m db))"

definition executemany_insert :: "metric list \<Rightarrow> nat option \<Rightarrow> connection \<Rightarrow> connection result" where
  \<comment> \<open>\<^verbatim>\<open>conn.executemany("INSERT INTO gpu_metrics (timestamp, timestamp_epoch, temperature,
      utilization, memory, power) VALUES (?, ?, ?, ?, ?, ?)", batch)\<close>; the statement is
      refused when the table or one of the six columns is missing\<close>
  "executemany_insert batch fault conn =
     (if has_columns [''timestamp'', ''timestamp_epoch'', ''temperature'', ''utilization'',
                      ''memory'', ''power''] (view conn)
      then (case insert_rows batch fault (view conn) of
              Inl (e, db) \<Rightarrow> Inl (e, conn\<lparr>txn := Some db\<rparr>)
            | Inr db \<Rightarrow> Inr (conn\<lparr>txn := Some db\<rparr>))
      else Inl (OperationalError, conn))"

subsection \<open>\<^verbatim>\<open>create_db_schema\<close>\<close>

text \<open>
  \<^verbatim>\<open>executescript\<close> commits an open transaction and then runs the two statements, each
  committed as it completes; the \<^verbatim>\<open>conn.commit()\<close> after it finds nothing to commit.
\<close>

definition create_db_schema :: "connection \<Rightarrow> connection result" where
  "create_db_schema conn =
     (let c = commit conn;
          c = c\<lparr>disk := create_table_if_not_exists (disk c)\<rparr>
      in case create_index_if_not_exists (disk c) of
           Inl e \<Rightarrow> Inl (e, c)
         | Inr db \<Rightarrow> Inr (commit (c\<lparr>disk := db\<rparr>)))"

subsection \<open>\<^verbatim>\<open>count_records\<close> and \<^verbatim>\<open>perform_trim_operation\<close> (\<^verbatim>\<open>test_trimming.py\<close>)\<close>

definition count_records :: "connection \<Rightarrow> nat result" where
  "count_records conn =
     (case select_count (view conn) of Inl e \<Rightarrow> Inl (e, conn) | Inr n \<Rightarrow> Inr n)"

text \<open>
  \<open>now\<close> is the value of \<^verbatim>\<open>datetime.now()\<close>. The result is the connection after the
  operation with the three counts that the function prints.
\<close>

definition perform_trim_operation ::
  "int \<Rightarrow> connection \<Rightarrow> (connection \<times> nat \<times> nat \<times> int) result" where
  "perform_trim_operation now conn =
     (let cutoff_time = int_timestamp (now - timedelta 0 24 10) in
      (case count_records conn of Inl e \<Rightarrow> Inl e | Inr before_count \<Rightarrow>
      (case execute_dml (delete_older cutoff_time) conn of Inl e \<Rightarrow> Inl e | Inr c \<Rightarrow>
      (case execute_vacuum (commit c) of Inl e \<Rightarrow> Inl e | Inr c \<Rightarrow>
      (let c = commit c in
      (case count_records c of Inl e \<Rightarrow> Inl e | Inr after_count \<Rightarrow>
      (let deleted_count = int before_count - int after_count in
       Inr (c, before_count, after_count, deleted_count))))))))"

subsection \<open>\<^verbatim>\<open>populate_database\<close>\<close>

text \<open>
  The body of the \<^verbatim>\<open>for\<close> loop of \<^verbatim>\<open>populate_database\<close> (and of the insertion in
  \<^verbatim>\<open>add_old_records\<close>): one transaction around one \<^verbatim>\<open>executemany\<close>.
\<close>

definition insert_batch :: "metric list \<Rightarrow> nat option \<Rightarrow> connection \<Rightarrow> connection result" where
  "insert_batch batch fault conn =
     (case execute_begin conn of Inl e \<Rightarrow> Inl e | Inr c \<Rightarrow>
     (case executemany_insert batch fault c of Inl e \<Rightarrow> Inl e | Inr c \<Rightarrow>
      Inr (commit c)))"

text \<open>\<^verbatim>\<open>range(i, stop, step)\<close> for a positive step.\<close>

function range_from :: "nat \<Rightarrow> nat \<Rightarrow> nat \<Rightarrow> nat list" where
  "range_from i stop step =
     (if step = 0 \<or> stop \<le> i then [] else i # range_from (i + step) stop step)"
  by pat_completeness auto
termination
  by (relation "measure (\<lambda>(i, stop, step). stop - i)") auto

definition py_range :: "nat \<Rightarrow> int \<Rightarrow> exn + nat list" where
  \<comment> \<open>\<^verbatim>\<open>range(0, stop, step)\<close>: a zero step raises, a negative step gives the empty range\<close>
  "py_range stop step =
     (if step = 0 then Inl ValueError
      else if step < 0 then Inr []
      else Inr (range_from 0 stop (nat step)))"

text \<open>
  The loop over the batch starts. \<open>fault\<close> counts tuples from the start of \<open>metrics\<close>, so
  the batch that begins at \<open>i\<close> fails at its tuple of index \<open>k - i\<close>.
\<close>

definition fault_in_batch :: "nat option \<Rightarrow> nat \<Rightarrow> nat option" where
  "fault_in_batch fault i =
     (case fault of None \<Rightarrow> None | Some k \<Rightarrow> if i \<le> k then Some (k - i) else None)"

fun insert_batches ::
  "nat list \<Rightarrow> metric list \<Rightarrow> nat \<Rightarrow> nat option \<Rightarrow> connection \<Rightarrow> connection result" where
  "insert_batches [] metrics batch_size fault conn = Inr conn"
| "insert_batches (i # starts) metrics batch_size fault conn =
     (let batch = take batch_size (drop i metrics) in
      (case insert_batch batch (fault_in_batch fault i) conn of
         Inl e \<Rightarrow> Inl e
       | Inr c \<Rightarrow> insert_batches starts metrics batch_size fault c))"

definition populate_database ::
  "connection \<Rightarrow> metric list \<Rightarrow> int \<Rightarrow> nat option \<Rightarrow> connection result" where
  "populate_database conn metrics batch_size fault =
     (case execute_dml delete_all conn of Inl e \<Rightarrow> Inl e | Inr c \<Rightarrow>
     (let c = commit c;
          total_records = length metrics in
      (case py_range total_records batch_size of
         Inl e \<Rightarrow> Inl (e, c)
       | Inr starts \<Rightarrow> insert_batches starts metrics (nat batch_size) fault c)))"

subsection \<open>\<^verbatim>\<open>create_history_json\<close>\<close>

text \<open>The dictionary \<^verbatim>\<open>result\<close>, a field for each of its five keys.\<close>

record history =
  h_timestamps :: "string list"
  h_temperatures :: "real list"
  h_utilizations :: "real list"
  h_memory :: "real list"
  h_power :: "real list"

definition empty_history :: history where
  "empty_history =
     \<lparr>h_timestamps = [], h_temperatures = [], h_utilizations = [], h_memory = [],
      h_power = []\<rparr>"

definition append_row :: "history \<Rightarrow> string \<times> real \<times> real \<times> real \<times> real \<Rightarrow> history" where
  \<comment> \<open>the body of \<^verbatim>\<open>for row in cur.fetchall()\<close>\<close>
  "append_row result fetched =
     (case fetched of (timestamp, temp, util, mem, power_w) \<Rightarrow>
        \<lparr>h_timestamps = h_timestamps result @ [timestamp],
         h_temperatures = h_temperatures result @ [temp],
         h_utilizations = h_utilizations result @ [util],
         h_memory = h_memory result @ [mem],
         h_power = h_power result @ [power_w]\<rparr>)"

text \<open>
  The two functions \<^verbatim>\<open>create_history_json\<close> differ in the cutoff only; from the query on
  they are the same text. The result is the dictionary that is written to the file.
\<close>

definition history_document :: "int \<Rightarrow> connection \<Rightarrow> history result" where
  "history_document cutoff_time conn =
     (case select_window cutoff_time (view conn) of
        Inl e \<Rightarrow> Inl (e, conn)
      | Inr fetched \<Rightarrow> Inr (foldl append_row empty_history fetched))"


definition create_history_json_3d :: "zone \<Rightarrow> int \<Rightarrow> int \<Rightarrow> connection \<Rightarrow> history result" where
  \<comment> \<open>\<^verbatim>\<open>db_load_3d_test.py\<close>\<close>
  "create_history_json_3d z now history_days conn =
     (let cutoff_time = py_int (datetime_timestamp z (datetime_now z now - timedelta history_days 0 10))
      in history_document cutoff_time conn)"

section \<open>The static file handler (\<^verbatim>\<open>server.py\<close>)\<close>

definition strip :: "char \<Rightarrow> string \<Rightarrow> string" where
  \<comment> \<open>\<^verbatim>\<open>s.strip(c)\<close>: drops every leading and every trailing \<open>c\<close>\<close>
  "strip c s = rev (dropWhile (\<lambda>x. x = c) (rev (dropWhile (\<lambda>x. x = c) s)))"

datatype response = FileResponse string | Response nat

text \<open>
  \<open>exists\<close> is \<^verbatim>\<open>os.path.exists\<close> in the state of the file system at the request;
  \<open>path\<close> is \<^verbatim>\<open>request.path\<close>.
\<close>

definition handle_static :: "(string \<Rightarrow> bool) \<Rightarrow> string \<Rightarrow> response" where
  "handle_static exists path =
     (let file_path = strip CHR ''/'' path;
          file_path = (if file_path = [] then ''gpu-stats.html'' else file_path)
      in if exists file_path then FileResponse file_path else Response 404)"

text \<open>
  How the operating system resolves a relative path: the segments between slashes are
  followed from the working directory, \<^verbatim>\<open>..\<close> leaving the directory reached so far (and
  staying at the root). A directory is the list of its segments from the root; symbolic
  links are not modelled.
\<close>

fun split_path :: "string \<Rightarrow> string list" where
  "split_path [] = [[]]"
| "split_path (c # cs) =
     (if c = CHR ''/'' then [] # split_path cs
      else (case split_path cs of seg # segs \<Rightarrow> (c # seg) # segs | [] \<Rightarrow> [[c]]))"

definition follow :: "string list \<Rightarrow> string \<Rightarrow> string list" where
  "follow dir seg =
     (if seg = [] \<or> seg = ''.'' then dir
      else if seg = ''..'' then butlast dir
      else dir @ [seg])"

definition resolve :: "string list \<Rightarrow> string \<Rightarrow> string list" where
  "resolve cwd p = foldl follow cwd (split_path p)"

definition os_path_exists :: "string list set \<Rightarrow> string list \<Rightarrow> string \<Rightarrow> bool" where
  \<comment> \<open>\<open>files\<close> holds the resolved location of every file and directory there is\<close>
  "os_path_exists files cwd p = (resolve cwd p \<in> files)"

definition inside :: "string list \<Rightarrow> string list \<Rightarrow> bool" where
  \<comment> \<open>the location \<open>loc\<close> is the directory \<open>dir\<close> or lies below it\<close>
  "inside dir loc = (take (length dir) loc = dir)"

text \<open>The path that the handler looks up for a request path.\<close>

definition served_path :: "string \<Rightarrow> string" where
  "served_path path =
     (if strip CHR ''/'' path = [] then ''gpu-stats.html'' else strip CHR ''/'' path)"

section \<open>The installer (\<^verbatim>\<open>no_docker.py\<close>)\<close>

text \<open>
  The names that the class \<^verbatim>\<open>GPUMonitorInstaller\<close> defines with \<^verbatim>\<open>def\<close>, and the
  attributes that \<^verbatim>\<open>__init__\<close> and \<^verbatim>\<open>setup_logging\<close> set on the instance.
\<close>

definition class_methods :: "string list" where
  "class_methods =
     [''__init__'', ''setup_logging'', ''detect_environment'', ''check_nvidia_paths'',
      ''check_prerequisites'', ''check_and_install_dependencies'', ''setup_directories'',
      ''setup_virtual_environment'', ''modify_monitor_script'', ''create_systemd_service'',
      ''copy_application_files'', ''check_service_status'', ''start_service'',
      ''stop_service'', ''cleanup'']"

definition instance_attributes :: "string list" where
  "instance_attributes =
     [''current_dir'', ''user'', ''user_home'', ''app_dir'', ''venv_dir'', ''log_dir'',
      ''history_dir'', ''systemd_service_path'', ''nvidia_smi_path'', ''required_commands'',
      ''required_packages'', ''logger'']"

definition has_attribute :: "string \<Rightarrow> bool" where
  \<comment> \<open>the lookup of \<^verbatim>\<open>self.name\<close> finds something, for a name that \<^verbatim>\<open>object\<close> itself
      does not have\<close>
  "has_attribute name = (name \<in> set instance_attributes \<or> name \<in> set class_methods)"

definition required_commands :: "string list" where
  "required_commands = [''tr'', ''cut'', ''chmod'', ''wc'', ''date'', ''sleep'', ''systemctl'']"

text \<open>
  What the installer finds on the machine: whether \<^verbatim>\<open>setup_logging\<close> can create the
  log directory and the log file, the effective user id, which commands \<^verbatim>\<open>which\<close>
  locates, whether the interpreter is recent enough, whether systemd is there, how
  running \<^verbatim>\<open>nvidia-smi\<close> ends (\<open>None\<close> when the command is not found), what
  \<^verbatim>\<open>check_nvidia_paths\<close> returns, and whether the seven steps after
  \<^verbatim>\<open>check_prerequisites\<close> all return \<^verbatim>\<open>True\<close>.
\<close>

record environment =
  log_writable :: bool
  euid :: nat
  which :: "string \<Rightarrow> bool"
  python_version_ok :: bool
  systemd_present :: bool
  nvidia_smi_runs :: "bool option"
  nvidia_path_found :: "string option"
  later_steps :: bool

text \<open>
  The result of \<^verbatim>\<open>check_prerequisites\<close> with the commands it ran through
  \<^verbatim>\<open>subprocess.run\<close>, in order. The call \<^verbatim>\<open>self.ensure_path()\<close> stands before the
  \<^verbatim>\<open>try\<close>, so what it raises leaves the method.
\<close>

definition check_prerequisites :: "environment \<Rightarrow> (exn + bool) \<times> string list list" where
  "check_prerequisites env =
     (if \<not> has_attribute ''ensure_path'' then (Inl AttributeError, [])
      else
        (let ran = map (\<lambda>cmd. [''which'', cmd]) required_commands;
             missing_commands = filter (\<lambda>cmd. \<not> which env cmd) required_commands
         in if missing_commands \<noteq> [] then (Inr False, ran)
            else if \<not> python_version_ok env then (Inr False, ran)
            else if \<not> systemd_present env then (Inr False, ran)
            else if nvidia_smi_runs env = Some True then (Inr True, ran @ [[''nvidia-smi'']])
            else (case nvidia_path_found env of
                    None \<Rightarrow> (Inr False, ran @ [[''nvidia-smi'']])
                  | Some nvidia_smi \<Rightarrow> (Inr True, ran @ [[''nvidia-smi'']]))))"

text \<open>
  How \<^verbatim>\<open>main\<close> ends when called with \<^verbatim>\<open>--start\<close>: the installation succeeded, the
  process exited with a status, or an exception left \<^verbatim>\<open>main\<close> uncaught. The
  constructor sets up logging, which fails with the error of the operating system when the
  log directory cannot be written, and exits with status 1 when the user is not root.
\<close>

datatype outcome = Installed | Exit nat | Uncaught exn

definition main_start :: "environment \<Rightarrow> outcome" where
  "main_start env =
     (if \<not> log_writable env then Uncaught PermissionError
      else if euid env \<noteq> 0 then Exit 1
      else (case fst (check_prerequisites env) of
              Inl e \<Rightarrow> Uncaught e
            | Inr ok \<Rightarrow> if ok \<and> later_steps env then Installed else Exit 1))"

section \<open>Notions used in the statements\<close>

text \<open>A store whose table \<^verbatim>\<open>gpu_metrics\<close> has the columns of the schema.\<close>

definition initialised :: "database \<Rightarrow> bool" where
  "initialised db = (table_columns db = Some gpu_metrics_columns)"

text \<open>The six values of a row that an INSERT supplied.\<close>

definition row_metric :: "row \<Rightarrow> metric" where
  "row_metric r =
     (col_timestamp r, col_timestamp_epoch r, col_temperature r, col_utilization r,
      col_memory r, col_power r)"

definition metric_epoch :: "metric \<Rightarrow> int" where
  "metric_epoch m = fst (snd m)"

text \<open>
  The rows with an epoch after \<open>min_epoch\<close>, ascending by epoch: what the spec calls
  \<open>window(min_epoch)\<close>.
\<close>

definition window :: "int \<Rightarrow> row list \<Rightarrow> row list" where
  "window min_epoch rs =
     sort_key col_timestamp_epoch (filter (\<lambda>r. min_epoch < col_timestamp_epoch r) rs)"

text \<open>The five parallel arrays of a list of rows: index \<open>i\<close> of each is row \<open>i\<close>.\<close>

definition document_of :: "row list \<Rightarrow> history" where
  "document_of rs =
     \<lparr>h_timestamps = map col_timestamp rs,
      h_temperatures = map col_temperature rs,
      h_utilizations = map col_utilization rs,
      h_memory = map col_memory rs,
      h_power = map col_power rs\<rparr>"



text \<open>The store right after the schema was created in a new file.\<close>

definition fresh_store :: database where
  "fresh_store =
     \<lparr>table_columns = Some gpu_metrics_columns,
      index_on = Some (''gpu_metrics'', [''timestamp_epoch'']),
      table_rows = [], sequence = 0\<rparr>"

text \<open>
  A raw reading of the three-day generator: the values of \<^verbatim>\<open>current_time\<close>,
  \<^verbatim>\<open>temp\<close>, \<^verbatim>\<open>util\<close>, \<^verbatim>\<open>mem\<close> and \<^verbatim>\<open>power\<close> before line 156, and the draw of
  line 163 that decides whether the power reading is replaced by \<^verbatim>\<open>"N/A"\<close>.
\<close>

record reading =
  r_time :: int
  r_temp :: real
  r_util :: real
  r_mem :: real
  r_power :: real
  r_draw :: real

definition entry_3d :: "(int \<Rightarrow> string) \<Rightarrow> reading \<Rightarrow> metric" where
  "entry_3d strftime r =
     generate_metrics_3d_entry strftime (r_time r) (r_temp r) (r_util r) (r_mem r) (r_power r)
       (r_draw r)"

definition unavailable :: "reading \<Rightarrow> bool" where
  "unavailable r = (0.995 < r_draw r)"

definition reading_epoch :: "reading \<Rightarrow> int" where
  "reading_epoch r = int_timestamp (r_time r)"

definition metric_power :: "metric \<Rightarrow> real" where
  "metric_power m = snd (snd (snd (snd (snd m))))"

definition example_readings :: "reading list" where
  \<comment> \<open>a reading of zero watts, and a later one whose power is unavailable\<close>
  "example_readings =
     [\<lparr>r_time = 1700000000000000, r_temp = 45, r_util = 30, r_mem = 2000, r_power = 0,
       r_draw = 0.5\<rparr>,
      \<lparr>r_time = 1700090000000000, r_temp = 70, r_util = 95, r_mem = 8000, r_power = 120,
       r_draw = 0.999\<rparr>]"

text \<open>
  The states of a connection that the programs can bring about: the schema is created in
  a new file, and from then on each of the operations runs, to its end or to an
  exception, and the connection is closed and opened again.
\<close>

inductive reachable :: "connection \<Rightarrow> bool" where
  created: "create_db_schema (connect empty_database) = Inr c \<Longrightarrow> reachable c"
| schema_again: "reachable c \<Longrightarrow> create_db_schema c = Inr c' \<Longrightarrow> reachable c'"
| schema_failed: "reachable c \<Longrightarrow> create_db_schema c = Inl (e, c') \<Longrightarrow> reachable c'"
| populated: "reachable c \<Longrightarrow> populate_database c ms batch_size fault = Inr c' \<Longrightarrow> reachable c'"
| populate_failed:
    "reachable c \<Longrightarrow> populate_database c ms batch_size fault = Inl (e, c') \<Longrightarrow> reachable c'"
| batch: "reachable c \<Longrightarrow> insert_batch ms fault c = Inr c' \<Longrightarrow> reachable c'"
| batch_failed: "reachable c \<Longrightarrow> insert_batch ms fault c = Inl (e, c') \<Longrightarrow> reachable c'"
| trimmed: "reachable c \<Longrightarrow> perform_trim_operation now c = Inr (c', counts) \<Longrightarrow> reachable c'"
| trim_failed: "reachable c \<Longrightarrow> perform_trim_operation now c = Inl (e, c') \<Longrightarrow> reachable c'"
| reopened: "reachable c \<Longrightarrow> reachable (connect (close c))"

definition schema_ok :: "database \<Rightarrow> bool" where
  "schema_ok db =
     (table_columns db = Some gpu_metrics_columns
      \<and> index_on db = Some (''gpu_metrics'', [''timestamp_epoch'']))"

definition both_ok :: "connection \<Rightarrow> bool" where
  "both_ok c = (schema_ok (disk c) \<and> schema_ok (view c))"

section \<open>Example states\<close>

text \<open>
  A store with one sample taken at 2023-11-14 22:13:20 UTC and one taken 25 hours later,
  and a store whose only sample was taken at the Unix epoch itself.
\<close>

definition example_rows :: "row list" where
  "example_rows =
     [\<lparr>col_id = 1, col_timestamp = ''11-14 22:13:20'', col_timestamp_epoch = 1700000000,
       col_temperature = 45, col_utilization = 30, col_memory = 2000, col_power = 80\<rparr>,
      \<lparr>col_id = 2, col_timestamp = ''11-15 23:13:20'', col_timestamp_epoch = 1700090000,
       col_temperature = 70, col_utilization = 95, col_memory = 8000, col_power = 0\<rparr>]"

definition example_store :: database where
  "example_store =
     \<lparr>table_columns = Some gpu_metrics_columns,
      index_on = Some (''gpu_metrics'', [''timestamp_epoch'']),
      table_rows = example_rows, sequence = 2\<rparr>"

definition epoch_metric :: metric where
  "epoch_metric = (''01-01 00:00:00'', 0, 40, 20, 2000, 50)"

definition epoch_row :: row where
  "epoch_row =
     \<lparr>col_id = 1, col_timestamp = ''01-01 00:00:00'', col_timestamp_epoch = 0,
      col_temperature = 40, col_utilization = 20, col_memory = 2000, col_power = 50\<rparr>"

definition epoch_store :: database where
  "epoch_store =
     \<lparr>table_columns = Some gpu_metrics_columns,
      index_on = Some (''gpu_metrics'', [''timestamp_epoch'']),
      table_rows = [epoch_row], sequence = 1\<rparr>"




definition example_zone :: zone where
  "example_zone =
     \<lparr>utcoffset_at = (\<lambda>t. if t < 1698541200 then 7200 else 3600),
      utcoffset_of = (\<lambda>w. if w < 1698548400 then 7200 else 3600)\<rparr>"



section \<open>The sanitizer\<close>

lemma clamp_nearest:
  assumes "lo \<le> hi"
  shows "max lo (min hi x) = nearest_in lo hi x"
  using assms by (simp add: nearest_in_def max_def min_def)

lemma nearest_in_bounds:
  assumes "lo \<le> hi"
  shows "lo \<le> nearest_in lo hi x" and "nearest_in lo hi x \<le> hi"
  using assms by (simp_all add: nearest_in_def)


text \<open>
  C6. The sanitizer is the clamping at the end of an iteration of \<^verbatim>\<open>generate_metrics\<close>.
  It is a total function of the reading: for every reading, in range, on a bound or far
  outside, it returns a tuple whose temperature is the nearest point of 20 to 95 to the
  reading's, whose utilization is the nearest point of 0 to 100, whose memory is the
  nearest point of 500 to 12000, and whose power, when the reading's power is numeric, is
  the nearest point of 10 to 350; each of these lies in its range. No reading is rejected.
\<close>

theorem sanitize_clamps_to_nearest_bound:
  "generate_metrics_entry strftime t temp util mem pw =
     (strftime t, int_timestamp t, nearest_in 20 95 temp, nearest_in 0 100 util,
      nearest_in 500 12000 mem, nearest_in 10 350 pw)
   \<and> generate_metrics_3d_entry strftime t temp util mem pw draw =
     (strftime t, int_timestamp t, nearest_in 20 95 temp, nearest_in 0 100 util,
      nearest_in 500 12000 mem, if 0.995 < draw then 0 else nearest_in 10 350 pw)
   \<and> 20 \<le> nearest_in 20 95 temp \<and> nearest_in 20 95 temp \<le> 95
   \<and> 0 \<le> nearest_in 0 100 util \<and> nearest_in 0 100 util \<le> 100
   \<and> 500 \<le> nearest_in 500 12000 mem \<and> nearest_in 500 12000 mem \<le> 12000
   \<and> 10 \<le> nearest_in 10 350 pw \<and> nearest_in 10 350 pw \<le> 350"
  by (simp add: generate_metrics_entry_def generate_metrics_3d_entry_def clamp_nearest
      nearest_in_bounds)

section \<open>Columns and rows under the statements\<close>

lemma initialised_has_columns:
  assumes "initialised db" and "set cs \<subseteq> set gpu_metrics_columns"
  shows "has_columns cs db"
  using assms by (auto simp: initialised_def has_columns_def list_all_iff)

lemma initialised_rows_update [simp]: "initialised (db\<lparr>table_rows := rs\<rparr>) = initialised db"
  by (simp add: initialised_def)

lemma initialised_append_metric [simp]: "initialised (append_metric m db) = initialised db"
  by (cases m) (simp add: append_metric_def initialised_def)

lemma index_on_append_metric [simp]: "index_on (append_metric m db) = index_on db"
  by (cases m) (simp add: append_metric_def)

lemma rows_append_metric:
  "map row_metric (table_rows (append_metric m db)) = map row_metric (table_rows db) @ [m]"
  by (cases m) (simp add: append_metric_def row_metric_def)

lemma initialised_fold_append [simp]: "initialised (fold append_metric ms db) = initialised db"
  by (induction ms arbitrary: db) simp_all

lemma index_on_fold_append [simp]: "index_on (fold append_metric ms db) = index_on db"
  by (induction ms arbitrary: db) simp_all

lemma rows_fold_append:
  "map row_metric (table_rows (fold append_metric ms db)) = map row_metric (table_rows db) @ ms"
  by (induction ms arbitrary: db) (simp_all add: rows_append_metric)

lemma length_rows_fold_append:
  "length (table_rows (fold append_metric ms db)) = length (table_rows db) + length ms"
  using arg_cong [OF rows_fold_append [of ms db], of length] by simp

section \<open>The connection\<close>

lemma view_simps [simp]:
  "view \<lparr>disk = d, txn = None\<rparr> = d"
  "view \<lparr>disk = d, txn = Some w\<rparr> = w"
  "view (conn\<lparr>txn := Some w\<rparr>) = w"
  by (simp_all add: view_def)

lemma commit_simps [simp]:
  "disk (commit conn) = view conn" "txn (commit conn) = None" "view (commit conn) = view conn"
  by (simp_all add: commit_def)

lemma commit_eq: "commit conn = connect (view conn)"
  by (simp add: commit_def connect_def)

lemma connect_simps [simp]:
  "view (connect db) = db" "disk (connect db) = db" "txn (connect db) = None"
  by (simp_all add: connect_def)

lemma begun_eq: "conn\<lparr>txn := Some w\<rparr> = \<lparr>disk = disk conn, txn = Some w\<rparr>"
  by (cases conn) simp

lemma count_records_initialised:
  assumes "initialised (view conn)"
  shows "count_records conn = Inr (length (table_rows (view conn)))"
proof -
  have "has_columns [] (view conn)"
    using assms by (rule initialised_has_columns) simp
  then show ?thesis by (simp add: count_records_def select_count_def)
qed

section \<open>Inserting\<close>

lemma insert_rows_eq:
  "insert_rows ms fault db =
     (case fault of
        None \<Rightarrow> Inr (fold append_metric ms db)
      | Some k \<Rightarrow>
          if k < length ms then Inl (OperationalError, fold append_metric (take k ms) db)
          else Inr (fold append_metric ms db))"
proof (induction ms arbitrary: fault db)
  case Nil
  then show ?case by (simp split: option.splits)
next
  case (Cons m ms)
  show ?case
  proof (cases fault)
    case None
    then show ?thesis using Cons by simp
  next
    case (Some k)
    show ?thesis
    proof (cases k)
      case 0
      then show ?thesis using Some by simp
    next
      case (Suc j)
      then show ?thesis using Some Cons by simp
    qed
  qed
qed

lemma insert_batch_initialised:
  assumes "initialised (disk conn)" and "txn conn = None"
  shows "insert_batch batch fault conn =
     (case fault of
        None \<Rightarrow> Inr (connect (fold append_metric batch (disk conn)))
      | Some k \<Rightarrow>
          if k < length batch
          then Inl (OperationalError,
                    \<lparr>disk = disk conn,
                     txn = Some (fold append_metric (take k batch) (disk conn))\<rparr>)
          else Inr (connect (fold append_metric batch (disk conn))))"
proof -
  have "has_columns [''timestamp'', ''timestamp_epoch'', ''temperature'', ''utilization'',
                      ''memory'', ''power''] (disk conn)"
    using assms(1) by (rule initialised_has_columns) (simp add: gpu_metrics_columns_def)
  then show ?thesis
    using assms(2)
    by (simp add: insert_batch_def execute_begin_def executemany_insert_def insert_rows_eq
        commit_eq begun_eq split: option.splits)
qed

lemma fault_in_batch_None [simp]: "fault_in_batch None i = None"
  by (simp add: fault_in_batch_def)

lemma fault_in_batch_Some [simp]: "i \<le> k \<Longrightarrow> fault_in_batch (Some k) i = Some (k - i)"
  by (simp add: fault_in_batch_def)

lemma slice_then_rest: "take n (drop i xs) @ drop (i + n) xs = drop i xs"
  by (simp add: add.commute [of i n] flip: drop_drop)

lemma fold_slice_then_rest:
  "fold f (drop (i + n) xs) (fold f (take n (drop i xs)) a) = fold f (drop i xs) a"
  using fold_append [of f "take n (drop i xs)" "drop (i + n) xs"]
  by (simp add: slice_then_rest)

lemma fold_slice_then_take:
  "fold f (take j (drop (i + n) xs)) (fold f (take n (drop i xs)) a) =
     fold f (take (n + j) (drop i xs)) a"
  using fold_append [of f "take n (drop i xs)" "take j (drop (i + n) xs)"]
  by (simp add: take_add add.commute [of i n])

lemma insert_batches_ok:
  assumes "0 < bs" and "initialised (disk conn)" and "txn conn = None"
  shows "insert_batches (range_from i (length ms) bs) ms bs None conn =
     Inr (connect (fold append_metric (drop i ms) (disk conn)))"
  using assms
proof (induction i "length ms" bs arbitrary: conn rule: range_from.induct)
  case (1 i step)
  note pos = 1(2) and init = 1(3) and notxn = 1(4)
  show ?case
  proof (cases "length ms \<le> i")
    case True
    then show ?thesis using notxn by (simp add: connect_def)
  next
    case False
    let ?c = "connect (fold append_metric (take step (drop i ms)) (disk conn))"
    have step: "insert_batch (take step (drop i ms)) None conn = Inr ?c"
      using init notxn by (simp add: insert_batch_initialised)
    have "insert_batches (range_from (i + step) (length ms) step) ms step None ?c =
        Inr (connect (fold append_metric (drop (i + step) ms) (disk ?c)))"
      using False pos init 1(1) [of ?c] by simp
    then show ?thesis using False pos step
      by (subst range_from.simps) (simp add: fold_slice_then_rest)
  qed
qed

lemma insert_batches_fault:
  assumes "0 < bs" and "initialised (disk conn)" and "txn conn = None"
    and "i \<le> k" and "k < length ms"
  shows "insert_batches (range_from i (length ms) bs) ms bs (Some k) conn =
     Inl (OperationalError,
          \<lparr>disk = fold append_metric (take (((k - i) div bs) * bs) (drop i ms)) (disk conn),
           txn = Some (fold append_metric (take (k - i) (drop i ms)) (disk conn))\<rparr>)"
  using assms
proof (induction i "length ms" bs arbitrary: conn rule: range_from.induct)
  case (1 i step)
  note pos = 1(2) and init = 1(3) and notxn = 1(4) and ik = 1(5) and kn = 1(6)
  have i: "i < length ms" "step \<noteq> 0" using pos ik kn by simp_all
  show ?case
  proof (cases "k - i < step")
    case True
    have "k - i < length (take step (drop i ms))"
      using True ik kn by simp
    then have "insert_batch (take step (drop i ms)) (Some (k - i)) conn =
       Inl (OperationalError,
            \<lparr>disk = disk conn,
             txn = Some (fold append_metric (take (k - i) (take step (drop i ms))) (disk conn))\<rparr>)"
      using init notxn by (simp add: insert_batch_initialised)
    moreover have "take (k - i) (take step (drop i ms)) = take (k - i) (drop i ms)"
      using True by (simp add: min_def)
    ultimately show ?thesis using True i ik
      by (subst range_from.simps) simp
  next
    case False
    let ?c = "connect (fold append_metric (take step (drop i ms)) (disk conn))"
    have "\<not> k - i < length (take step (drop i ms))"
      using False by simp
    then have step: "insert_batch (take step (drop i ms)) (Some (k - i)) conn = Inr ?c"
      using init notxn by (simp add: insert_batch_initialised)
    have rec: "insert_batches (range_from (i + step) (length ms) step) ms step (Some k) ?c =
        Inl (OperationalError,
          \<lparr>disk = fold append_metric
                    (take (((k - (i + step)) div step) * step) (drop (i + step) ms)) (disk ?c),
           txn = Some (fold append_metric (take (k - (i + step)) (drop (i + step) ms))
                    (disk ?c))\<rparr>)"
      using False i pos kn 1(1) [of ?c] init by simp
    have d: "((k - i) div step) * step = step + ((k - (i + step)) div step) * step"
      using False i by (simp add: le_div_geq)
    have e: "k - i = step + (k - (i + step))"
      using False by simp
    have "fold append_metric (take (((k - (i + step)) div step) * step) (drop (i + step) ms))
            (disk ?c) =
          fold append_metric (take (((k - i) div step) * step) (drop i ms)) (disk conn)"
      unfolding d by (simp add: fold_slice_then_take)
    moreover have "fold append_metric (take (k - (i + step)) (drop (i + step) ms)) (disk ?c) =
          fold append_metric (take (k - i) (drop i ms)) (disk conn)"
      using fold_slice_then_take [of append_metric "k - (i + step)" i step ms "disk conn"] e
      by simp
    ultimately show ?thesis using i step rec ik
      by (subst range_from.simps) simp
  qed
qed

lemma delete_all_initialised:
  assumes "initialised db"
  shows "delete_all db = Inr (db\<lparr>table_rows := []\<rparr>)"
proof -
  have "has_columns [] db" using assms by (rule initialised_has_columns) simp
  then show ?thesis by (simp add: delete_all_def)
qed

lemma py_range_pos: "0 < step \<Longrightarrow> py_range n step = Inr (range_from 0 n (nat step))"
  by (simp add: py_range_def)

lemma populate_database_ok:
  assumes "initialised (view conn)" and "0 < batch_size"
  shows "populate_database conn ms batch_size None =
     Inr (connect (fold append_metric ms ((view conn)\<lparr>table_rows := []\<rparr>)))"
proof -
  let ?c = "connect ((view conn)\<lparr>table_rows := []\<rparr>)"
  have "insert_batches (range_from 0 (length ms) (nat batch_size)) ms (nat batch_size) None ?c =
     Inr (connect (fold append_metric (drop 0 ms) (disk ?c)))"
    using assms by (intro insert_batches_ok) simp_all
  then show ?thesis using assms
    by (simp add: populate_database_def execute_dml_def delete_all_initialised py_range_pos
        commit_eq)
qed

lemma populate_database_fault:
  assumes "initialised (view conn)" and "0 < batch_size" and "k < length ms"
  shows "populate_database conn ms batch_size (Some k) =
     Inl (OperationalError,
          \<lparr>disk = fold append_metric (take ((k div nat batch_size) * nat batch_size) ms)
                   ((view conn)\<lparr>table_rows := []\<rparr>),
           txn = Some (fold append_metric (take k ms) ((view conn)\<lparr>table_rows := []\<rparr>))\<rparr>)"
proof -
  let ?c = "connect ((view conn)\<lparr>table_rows := []\<rparr>)"
  have "insert_batches (range_from 0 (length ms) (nat batch_size)) ms (nat batch_size)
          (Some k) ?c =
     Inl (OperationalError,
          \<lparr>disk = fold append_metric
                    (take (((k - 0) div nat batch_size) * nat batch_size) (drop 0 ms)) (disk ?c),
           txn = Some (fold append_metric (take (k - 0) (drop 0 ms)) (disk ?c))\<rparr>)"
    using assms by (intro insert_batches_fault) simp_all
  then show ?thesis using assms
    by (simp add: populate_database_def execute_dml_def delete_all_initialised py_range_pos
        commit_eq)
qed

section \<open>Reading a window\<close>

lemma foldl_append_row:
  "foldl append_row h xs =
     \<lparr>h_timestamps = h_timestamps h @ map fst xs,
      h_temperatures = h_temperatures h @ map (\<lambda>x. fst (snd x)) xs,
      h_utilizations = h_utilizations h @ map (\<lambda>x. fst (snd (snd x))) xs,
      h_memory = h_memory h @ map (\<lambda>x. fst (snd (snd (snd x)))) xs,
      h_power = h_power h @ map (\<lambda>x. snd (snd (snd (snd x)))) xs\<rparr>"
proof (induction xs arbitrary: h)
  case Nil
  then show ?case by simp
next
  case (Cons x xs)
  then show ?case by (cases x) (simp add: append_row_def)
qed

lemma history_document_initialised:
  assumes "initialised (view conn)"
  shows "history_document cutoff_time conn =
     Inr (document_of (window cutoff_time (table_rows (view conn))))"
proof -
  have "has_columns [''timestamp'', ''temperature'', ''utilization'', ''memory'', ''power'',
                      ''timestamp_epoch''] (view conn)"
    using assms by (rule initialised_has_columns) (simp add: gpu_metrics_columns_def)
  then show ?thesis
    by (simp add: history_document_def select_window_def foldl_append_row empty_history_def
        window_def document_of_def comp_def)
qed

lemma map_insort_key:
  "map f (insort_key (\<lambda>x. k (f x)) a ys) = insort_key k (f a) (map f ys)"
  by (induction ys) simp_all

lemma map_sort_key: "map f (sort_key (\<lambda>x. k (f x)) xs) = sort_key k (map f xs)"
  by (induction xs) (simp_all add: map_insort_key)

lemma row_metric_window:
  "map row_metric (window min_epoch rs) =
     sort_key metric_epoch (filter (\<lambda>m. min_epoch < metric_epoch m) (map row_metric rs))"
proof -
  have e: "col_timestamp_epoch = (\<lambda>r. metric_epoch (row_metric r))"
    by (simp add: fun_eq_iff metric_epoch_def row_metric_def)
  show ?thesis
    unfolding window_def by (subst e, subst e) (simp add: map_sort_key filter_map comp_def)
qed


section \<open>Pruning\<close>

lemma perform_trim_operation_initialised:
  assumes "initialised (view conn)"
    and "int_timestamp (now - timedelta 0 24 10) = cutoff"
  shows "perform_trim_operation now conn =
     Inr (connect ((view conn)\<lparr>table_rows :=
                     filter (\<lambda>r. cutoff \<le> col_timestamp_epoch r) (table_rows (view conn))\<rparr>),
          length (table_rows (view conn)),
          length (filter (\<lambda>r. cutoff \<le> col_timestamp_epoch r) (table_rows (view conn))),
          int (length (filter (\<lambda>r. col_timestamp_epoch r < cutoff) (table_rows (view conn)))))"
proof -
  let ?db = "view conn"
  let ?kept = "filter (\<lambda>r. cutoff \<le> col_timestamp_epoch r) (table_rows ?db)"
  have cols: "has_columns [''timestamp_epoch''] ?db"
    using assms(1) by (rule initialised_has_columns) (simp add: gpu_metrics_columns_def)
  then have del: "execute_dml (delete_older cutoff) conn =
      Inr (conn\<lparr>txn := Some (?db\<lparr>table_rows := ?kept\<rparr>)\<rparr>)"
    by (simp add: execute_dml_def delete_older_def not_less)
  have len: "int (length (table_rows ?db)) - int (length ?kept) =
      int (length (filter (\<lambda>r. col_timestamp_epoch r < cutoff) (table_rows ?db)))"
    using sum_length_filter_compl [of "\<lambda>r. col_timestamp_epoch r < cutoff" "table_rows ?db"]
    by (simp add: not_less)
  have after: "count_records (connect (?db\<lparr>table_rows := ?kept\<rparr>)) = Inr (length ?kept)"
    using assms(1) by (simp add: count_records_initialised)
  show ?thesis
    using assms del len after
    by (simp add: perform_trim_operation_def count_records_initialised commit_eq
        execute_vacuum_def Let_def)
qed

lemma cutoff_time_onto:
  "int_timestamp ((cutoff * 1000000 + timedelta 0 24 10) - timedelta 0 24 10) = cutoff"
proof -
  have "- (cutoff * 1000000) div 1000000 = - cutoff"
    using nonzero_mult_div_cancel_right [of "1000000 :: int" "- cutoff"] by simp
  then show ?thesis by (simp add: int_timestamp_def)
qed

lemma example_initialised: "initialised (view (connect example_store))"
  by (simp add: initialised_def example_store_def)

lemma example_cutoff: "int_timestamp (1700090004000000 - timedelta 0 24 10) = 1700003004"
  by (simp add: int_timestamp_def timedelta_def)

text \<open>
  C3. On a store that has the table, for every cutoff epoch (every cutoff is the cutoff
  of some clock value, \<open>cutoff_time_onto\<close>), the trim operation deletes exactly the samples
  with an epoch before the cutoff: it succeeds, the rows left are the rows with an epoch
  at or after the cutoff, each as it was and in the order it had, nothing else of the store
  changes, the count afterwards is the number of those rows, and the number reported as
  deleted is the number of rows with an epoch before the cutoff.
\<close>

theorem prune_removes_exactly_older:
  assumes "initialised (view conn)"
    and "int_timestamp (now - timedelta 0 24 10) = cutoff"
  shows "\<exists>c. perform_trim_operation now conn =
           Inr (c, length (table_rows (view conn)),
                length (filter (\<lambda>r. cutoff \<le> col_timestamp_epoch r) (table_rows (view conn))),
                int (length (filter (\<lambda>r. col_timestamp_epoch r < cutoff)
                       (table_rows (view conn)))))
       \<and> txn c = None
       \<and> disk c = (view conn)\<lparr>table_rows :=
                     filter (\<lambda>r. cutoff \<le> col_timestamp_epoch r) (table_rows (view conn))\<rparr>
       \<and> count_records c =
           Inr (length (filter (\<lambda>r. cutoff \<le> col_timestamp_epoch r) (table_rows (view conn))))"
  using assms
  by (simp add: perform_trim_operation_initialised count_records_initialised)

theorem prune_removes_exactly_older_witness:
  "initialised (view (connect example_store))
   \<and> int_timestamp (1700090004000000 - timedelta 0 24 10) = 1700003004
   \<and> (\<exists>c. perform_trim_operation 1700090004000000 (connect example_store) = Inr (c, 2, 1, 1)
          \<and> txn c = None
          \<and> disk c = example_store\<lparr>table_rows := [example_rows ! 1]\<rparr>
          \<and> count_records c = Inr 1)"
  using prune_removes_exactly_older [OF example_initialised example_cutoff]
    example_initialised example_cutoff
  by (simp add: example_store_def example_rows_def numeral_2_eq_2)

text \<open>
  C5. On a store that has the table, the trim operation is idempotent: after a first run,
  a second run with the same cutoff (at the same clock value or at a later one that
  truncates to the same cutoff) reports zero deleted records and returns the store in the
  state the first run left.
\<close>

theorem prune_idempotent:
  assumes "initialised (view conn)"
    and "perform_trim_operation now conn = Inr (c, before_count, after_count, deleted_count)"
    and "int_timestamp (now' - timedelta 0 24 10) = int_timestamp (now - timedelta 0 24 10)"
  shows "perform_trim_operation now' c = Inr (c, after_count, after_count, 0)"
proof -
  let ?cutoff = "int_timestamp (now - timedelta 0 24 10)"
  let ?kept = "filter (\<lambda>r. ?cutoff \<le> col_timestamp_epoch r) (table_rows (view conn))"
  have c: "c = connect ((view conn)\<lparr>table_rows := ?kept\<rparr>)" and n: "after_count = length ?kept"
    using assms(2) perform_trim_operation_initialised [OF assms(1) refl, of now] by simp_all
  have init: "initialised (view c)"
    using assms(1) c by simp
  have "filter (\<lambda>r. ?cutoff \<le> col_timestamp_epoch r) ?kept = ?kept"
    by simp
  moreover have "filter (\<lambda>r. col_timestamp_epoch r < ?cutoff) ?kept = []"
    by (simp add: filter_empty_conv)
  ultimately show ?thesis
    using perform_trim_operation_initialised [OF init assms(3)] c n
    by (simp add: connect_def)
qed

theorem prune_idempotent_witness:
  "initialised (view (connect example_store))
   \<and> perform_trim_operation 1700090004000000 (connect example_store) =
       Inr (connect (example_store\<lparr>table_rows := [example_rows ! 1]\<rparr>), 2, 1, 1)
   \<and> int_timestamp (1700090004500000 - timedelta 0 24 10) =
       int_timestamp (1700090004000000 - timedelta 0 24 10)
   \<and> perform_trim_operation 1700090004500000
        (connect (example_store\<lparr>table_rows := [example_rows ! 1]\<rparr>)) =
       Inr (connect (example_store\<lparr>table_rows := [example_rows ! 1]\<rparr>), 1, 1, 0)"
proof -
  have first: "perform_trim_operation 1700090004000000 (connect example_store) =
       Inr (connect (example_store\<lparr>table_rows := [example_rows ! 1]\<rparr>), 2, 1, 1)"
    using perform_trim_operation_initialised [OF example_initialised example_cutoff]
    by (simp add: example_store_def example_rows_def)
  have same: "int_timestamp (1700090004500000 - timedelta 0 24 10) =
       int_timestamp (1700090004000000 - timedelta 0 24 10)"
    by (simp add: int_timestamp_def timedelta_def)
  show ?thesis
    using prune_idempotent [OF example_initialised first same] example_initialised first same
    by simp
qed

section \<open>The float of a timestamp\<close>














section \<open>The exported document\<close>











section \<open>Writing and reading back\<close>

lemma populate_then_rows:
  assumes "initialised (view conn)" and "0 < batch_size"
  shows "\<exists>c. populate_database conn ms batch_size None = Inr c
           \<and> initialised (view c) \<and> txn c = None
           \<and> map row_metric (table_rows (view c)) = ms"
  using assms by (simp add: populate_database_ok rows_fold_append)

lemma sort_key_filter_all:
  assumes "list_all P xs"
  shows "sort_key k (filter P xs) = sort_key k xs"
  using assms by (simp add: list_all_iff)

text \<open>
  C7 (amended). On a store that has the table, for every list of samples whose epochs are
  positive, \<^verbatim>\<open>populate_database\<close> with a positive batch size empties the store and
  appends the samples, the stored rows carry the six appended values of each sample in
  the order of appending, and the window query with the minimum epoch 0 returns the
  timestamp, temperature, utilization, memory and power of exactly these rows, ascending
  by epoch (samples of equal epoch in the order of appending).
\<close>

theorem round_trip_positive_epochs:
  assumes "initialised (view conn)" and "0 < batch_size"
    and "list_all (\<lambda>m. 0 < metric_epoch m) ms"
  shows "\<exists>c. populate_database conn ms batch_size None = Inr c
           \<and> map row_metric (table_rows (view c)) = ms
           \<and> history_document 0 c = Inr (document_of (window 0 (table_rows (view c))))
           \<and> map row_metric (window 0 (table_rows (view c))) = sort_key metric_epoch ms
           \<and> sorted (map metric_epoch (sort_key metric_epoch ms))
           \<and> mset (sort_key metric_epoch ms) = mset ms"
proof -
  obtain c where c: "populate_database conn ms batch_size None = Inr c"
    "initialised (view c)" "map row_metric (table_rows (view c)) = ms"
    using populate_then_rows [OF assms(1,2)] by blast
  have "map row_metric (window 0 (table_rows (view c))) = sort_key metric_epoch ms"
    using assms(3) c(3) by (simp add: row_metric_window sort_key_filter_all)
  then show ?thesis
    using c by (simp add: history_document_initialised)
qed

lemma fresh_initialised: "initialised (view (connect fresh_store))"
  by (simp add: initialised_def fresh_store_def)

lemma populate_fresh_epoch:
  "populate_database (connect fresh_store) [epoch_metric] 1000 None = Inr (connect epoch_store)"
  using populate_database_ok [OF fresh_initialised, of 1000 "[epoch_metric]"]
  by (simp add: fresh_store_def epoch_store_def epoch_metric_def epoch_row_def
      append_metric_def next_id_def)

text \<open>
  The claim as stated, for every list of samples, fails for a sample taken at the epoch
  itself: the query compares with \<^verbatim>\<open>>\<close>, so the window from 0 does not return it.
\<close>

theorem round_trip_counterexample:
  "populate_database (connect fresh_store) [epoch_metric] 1000 None = Inr (connect epoch_store)
   \<and> history_document 0 (connect epoch_store) = Inr empty_history"
proof -
  have "initialised (view (connect epoch_store))"
    by (simp add: initialised_def epoch_store_def)
  then have "history_document 0 (connect epoch_store) = Inr empty_history"
    by (simp add: history_document_initialised window_def epoch_store_def epoch_row_def
        document_of_def empty_history_def)
  then show ?thesis using populate_fresh_epoch by simp
qed

theorem round_trip_positive_epochs_witness:
  "initialised (view (connect example_store)) \<and> (0::int) < 1000
   \<and> list_all (\<lambda>m. 0 < metric_epoch m) (map row_metric (rev example_rows))
   \<and> (\<exists>c. populate_database (connect example_store) (map row_metric (rev example_rows)) 1000 None
            = Inr c
          \<and> map row_metric (table_rows (view c)) = map row_metric (rev example_rows)
          \<and> history_document 0 c = Inr (document_of (window 0 (table_rows (view c))))
          \<and> map row_metric (window 0 (table_rows (view c))) = map row_metric example_rows)"
proof -
  have h: "list_all (\<lambda>m. 0 < metric_epoch m) (map row_metric (rev example_rows))"
    by (simp add: example_rows_def row_metric_def metric_epoch_def)
  have s: "sort_key metric_epoch (map row_metric (rev example_rows)) = map row_metric example_rows"
    by (simp add: example_rows_def row_metric_def metric_epoch_def)
  show ?thesis
    using round_trip_positive_epochs [OF example_initialised _ h, of 1000] h example_initialised
    by (auto simp: s)
qed

section \<open>Batches\<close>

text \<open>
  C4 (amended). On a store that has the table: one batch transaction (\<^verbatim>\<open>BEGIN\<close>,
  \<^verbatim>\<open>executemany\<close>, \<^verbatim>\<open>commit\<close>) that succeeds raises the count by exactly the length of
  the batch, and one that fails at a tuple of the batch leaves the committed store, which
  is what remains when the connection is closed, as it was before the batch.
  \<^verbatim>\<open>populate_database\<close> as a whole deletes the rows there were before it inserts: run
  to its end with a positive batch size it leaves a count of exactly \<open>N\<close>, and when it
  fails at tuple \<open>j\<close> the committed store holds the tuples of the batches before the
  failing one and nothing else.
\<close>

theorem batch_transaction_atomic:
  assumes "initialised (view conn)"
  shows "(txn conn = None \<longrightarrow>
            (\<exists>c. insert_batch batch None conn = Inr c
               \<and> count_records conn = Inr (length (table_rows (view conn)))
               \<and> count_records c = Inr (length (table_rows (view conn)) + length batch)
               \<and> map row_metric (table_rows (view c)) =
                   map row_metric (table_rows (view conn)) @ batch))
       \<and> (txn conn = None \<and> k < length batch \<longrightarrow>
            (\<exists>c. insert_batch batch (Some k) conn = Inl (OperationalError, c)
               \<and> close c = close conn
               \<and> count_records (connect (close c)) = count_records conn))
       \<and> (0 < batch_size \<longrightarrow>
            (\<exists>c. populate_database conn ms batch_size None = Inr c
               \<and> count_records c = Inr (length ms)
               \<and> map row_metric (table_rows (view c)) = ms))
       \<and> (0 < batch_size \<and> j < length ms \<longrightarrow>
            (\<exists>c. populate_database conn ms batch_size (Some j) = Inl (OperationalError, c)
               \<and> count_records (connect (close c)) =
                   Inr ((j div nat batch_size) * nat batch_size)
               \<and> map row_metric (table_rows (close c)) =
                   take ((j div nat batch_size) * nat batch_size) ms))"
proof -
  have one: "\<exists>c. insert_batch batch None conn = Inr c
               \<and> count_records conn = Inr (length (table_rows (view conn)))
               \<and> count_records c = Inr (length (table_rows (view conn)) + length batch)
               \<and> map row_metric (table_rows (view c)) =
                   map row_metric (table_rows (view conn)) @ batch"
    if "txn conn = None"
  proof -
    have d: "view conn = disk conn" using that by (simp add: view_def)
    show ?thesis
      using assms that d
      by (simp add: insert_batch_initialised count_records_initialised length_rows_fold_append
          rows_fold_append)
  qed
  have two: "\<exists>c. insert_batch batch (Some k) conn = Inl (OperationalError, c)
               \<and> close c = close conn
               \<and> count_records (connect (close c)) = count_records conn"
    if "txn conn = None" and "k < length batch"
  proof -
    have d: "view conn = disk conn" using that by (simp add: view_def)
    show ?thesis
      using assms that d
      by (simp add: insert_batch_initialised count_records_initialised close_def)
  qed
  have three: "\<exists>c. populate_database conn ms batch_size None = Inr c
               \<and> count_records c = Inr (length ms)
               \<and> map row_metric (table_rows (view c)) = ms"
    if "0 < batch_size"
    using assms that
    by (simp add: populate_database_ok count_records_initialised length_rows_fold_append
        rows_fold_append)
  have four: "\<exists>c. populate_database conn ms batch_size (Some j) = Inl (OperationalError, c)
               \<and> count_records (connect (close c)) = Inr ((j div nat batch_size) * nat batch_size)
               \<and> map row_metric (table_rows (close c)) =
                   take ((j div nat batch_size) * nat batch_size) ms"
    if "0 < batch_size" and "j < length ms"
  proof -
    have "(j div nat batch_size) * nat batch_size \<le> j"
      by simp
    then have "(j div nat batch_size) * nat batch_size \<le> length ms"
      using that(2) by (rule le_trans [OF _ less_imp_le])
    then have "min (length ms) ((j div nat batch_size) * nat batch_size) =
        (j div nat batch_size) * nat batch_size"
      by (simp only: min_absorb2)
    then show ?thesis
      using assms that
      by (simp add: populate_database_fault count_records_initialised length_rows_fold_append
          rows_fold_append close_def)
  qed
  show ?thesis using one two three four by blast
qed

text \<open>
  The claim as stated fails for \<^verbatim>\<open>populate_database\<close>: on a store of two samples,
  appending one sample ends with a count of 1, not 3, and a failure at the first tuple
  leaves the store empty, not unchanged.
\<close>

theorem batch_transaction_atomic_counterexample:
  "count_records (connect example_store) = Inr 2
   \<and> populate_database (connect example_store) [epoch_metric] 1000 None =
       Inr (connect (example_store\<lparr>table_rows := [epoch_row\<lparr>col_id := 3\<rparr>], sequence := 3\<rparr>))
   \<and> count_records
        (connect (example_store\<lparr>table_rows := [epoch_row\<lparr>col_id := 3\<rparr>], sequence := 3\<rparr>)) =
       Inr 1
   \<and> populate_database (connect example_store) [epoch_metric] 1000 (Some 0) =
       Inl (OperationalError,
            \<lparr>disk = example_store\<lparr>table_rows := []\<rparr>,
             txn = Some (example_store\<lparr>table_rows := []\<rparr>)\<rparr>)
   \<and> close \<lparr>disk = example_store\<lparr>table_rows := []\<rparr>,
             txn = Some (example_store\<lparr>table_rows := []\<rparr>)\<rparr> \<noteq> close (connect example_store)"
proof -
  have init: "initialised (view (connect (example_store\<lparr>table_rows := rs, sequence := n\<rparr>)))" for rs n
    by (simp add: initialised_def example_store_def)
  have a: "count_records (connect example_store) = Inr 2"
    using example_initialised by (simp add: count_records_initialised example_store_def example_rows_def)
  have b: "populate_database (connect example_store) [epoch_metric] 1000 None =
       Inr (connect (example_store\<lparr>table_rows := [epoch_row\<lparr>col_id := 3\<rparr>], sequence := 3\<rparr>))"
    using populate_database_ok [OF example_initialised, of 1000 "[epoch_metric]"]
    by (simp add: example_store_def epoch_metric_def epoch_row_def append_metric_def next_id_def)
  have c: "count_records
        (connect (example_store\<lparr>table_rows := [epoch_row\<lparr>col_id := 3\<rparr>], sequence := 3\<rparr>)) = Inr 1"
    using init by (simp add: count_records_initialised)
  have d: "populate_database (connect example_store) [epoch_metric] 1000 (Some 0) =
       Inl (OperationalError,
            \<lparr>disk = example_store\<lparr>table_rows := []\<rparr>,
             txn = Some (example_store\<lparr>table_rows := []\<rparr>)\<rparr>)"
    using populate_database_fault [OF example_initialised, of 1000 0 "[epoch_metric]"]
    by simp
  have e: "close \<lparr>disk = example_store\<lparr>table_rows := []\<rparr>,
             txn = Some (example_store\<lparr>table_rows := []\<rparr>)\<rparr> \<noteq> close (connect example_store)"
    by (simp add: close_def example_store_def example_rows_def)
  show ?thesis using a b c d e by simp
qed

theorem batch_transaction_atomic_witness:
  "initialised (view (connect example_store))
   \<and> txn (connect example_store) = None \<and> (0::nat) < length [epoch_metric] \<and> (0::int) < 1000
   \<and> (\<exists>c. insert_batch [epoch_metric] None (connect example_store) = Inr c
          \<and> count_records (connect example_store) = Inr 2
          \<and> count_records c = Inr 3)
   \<and> (\<exists>c. insert_batch [epoch_metric] (Some 0) (connect example_store) = Inl (OperationalError, c)
          \<and> close c = example_store
          \<and> count_records (connect (close c)) = Inr 2)
   \<and> (\<exists>c. populate_database (connect example_store) [epoch_metric] 1000 None = Inr c
          \<and> count_records c = Inr 1
          \<and> map row_metric (table_rows (view c)) = [epoch_metric])
   \<and> (\<exists>c. populate_database (connect example_store) [epoch_metric] 1000 (Some 0) =
            Inl (OperationalError, c)
          \<and> count_records (connect (close c)) = Inr 0
          \<and> table_rows (close c) = [])"
proof -
  have n: "length (table_rows example_store) = 2"
    by (simp add: example_store_def example_rows_def)
  have two: "count_records (connect example_store) = Inr 2"
    using example_initialised n by (simp add: count_records_initialised)
  show ?thesis
    using batch_transaction_atomic [OF example_initialised, of "[epoch_metric]" 0 1000 "[epoch_metric]" 0]
      example_initialised two
    by (auto simp: n close_def)
qed

section \<open>Unavailable power\<close>

lemma entry_3d_epoch: "metric_epoch (entry_3d strftime r) = reading_epoch r"
  by (simp add: entry_3d_def generate_metrics_3d_entry_def metric_epoch_def reading_epoch_def)

lemma entry_3d_power:
  "metric_power (entry_3d strftime r) =
     (if unavailable r then 0 else nearest_in 10 350 (r_power r))"
  by (simp add: entry_3d_def generate_metrics_3d_entry_def metric_power_def unavailable_def
      clamp_nearest)

lemma col_power_row_metric: "col_power r = metric_power (row_metric r)"
  by (simp add: metric_power_def row_metric_def)

lemma window_of_entries:
  assumes "map row_metric rs = map (entry_3d strftime) readings"
  shows "map col_power (window cutoff_time rs) =
     map (\<lambda>r. metric_power (entry_3d strftime r))
       (sort_key reading_epoch (filter (\<lambda>r. cutoff_time < reading_epoch r) readings))"
proof -
  have "map col_power (window cutoff_time rs) =
      map metric_power (map row_metric (window cutoff_time rs))"
    by (simp add: col_power_row_metric)
  also have "map row_metric (window cutoff_time rs) =
      sort_key metric_epoch
        (filter (\<lambda>m. cutoff_time < metric_epoch m) (map (entry_3d strftime) readings))"
    using assms by (simp add: row_metric_window)
  also have "\<dots> = map (entry_3d strftime)
        (sort_key reading_epoch (filter (\<lambda>r. cutoff_time < reading_epoch r) readings))"
    using map_sort_key [of "entry_3d strftime" metric_epoch]
    by (simp add: filter_map comp_def entry_3d_epoch)
  finally show ?thesis by simp
qed

text \<open>
  C2. A reading whose power is unavailable is stored with power 0, and a reading whose
  power is numeric, a reading of zero watts among them, is stored with a power from 10
  to 350: the stored value itself is the flag, and it tells the two apart. The flag
  reaches the exported document: after the readings are generated and stored (on a store
  that has the table, with a positive batch size), the power array of the document has,
  for each reading in the window and in its order, the value 0 exactly when the reading
  was unavailable, and a value from 10 to 350 otherwise.
\<close>

theorem unavailable_power_is_distinguishable:
  assumes "initialised (view conn)" and "0 < batch_size"
  shows "\<exists>c doc.
           populate_database conn (map (entry_3d strftime) readings) batch_size None = Inr c
         \<and> map col_power (table_rows (view c)) =
             map (\<lambda>r. if unavailable r then 0 else nearest_in 10 350 (r_power r)) readings
         \<and> create_history_json_3d z now history_days c = Inr doc
         \<and> list_all2 (\<lambda>r p. (p = 0) = unavailable r
                            \<and> (if unavailable r then p = 0 else 10 \<le> p \<and> p \<le> 350))
             (sort_key reading_epoch
                (filter (\<lambda>r. py_int (datetime_timestamp z
                                     (datetime_now z now - timedelta history_days 0 10))
                              < reading_epoch r)
                   readings))
             (h_power doc)"
proof -
  let ?cutoff = "py_int (datetime_timestamp z (datetime_now z now - timedelta history_days 0 10))"
  let ?sel = "sort_key reading_epoch (filter (\<lambda>r. ?cutoff < reading_epoch r) readings)"
  obtain c where c: "populate_database conn (map (entry_3d strftime) readings) batch_size None
      = Inr c" "initialised (view c)"
    "map row_metric (table_rows (view c)) = map (entry_3d strftime) readings"
    using populate_then_rows [OF assms] by blast
  have "map col_power (table_rows (view c)) =
      map metric_power (map row_metric (table_rows (view c)))"
    by (simp add: col_power_row_metric)
  then have stored: "map col_power (table_rows (view c)) =
      map (\<lambda>r. if unavailable r then 0 else nearest_in 10 350 (r_power r)) readings"
    unfolding c(3) by (simp add: entry_3d_power)
  have doc: "create_history_json_3d z now history_days c =
      Inr (document_of (window ?cutoff (table_rows (view c))))"
    using c(2) by (simp add: create_history_json_3d_def history_document_initialised)
  have pw: "h_power (document_of (window ?cutoff (table_rows (view c)))) =
      map (\<lambda>r. metric_power (entry_3d strftime r)) ?sel"
    using window_of_entries [OF c(3)] by (simp add: document_of_def)
  have each: "(metric_power (entry_3d strftime r) = 0) = unavailable r
      \<and> (if unavailable r then metric_power (entry_3d strftime r) = 0
          else 10 \<le> metric_power (entry_3d strftime r) \<and> metric_power (entry_3d strftime r) \<le> 350)"
    for r
    using nearest_in_bounds [of 10 350 "r_power r"] by (simp add: entry_3d_power)
  have "list_all2 (\<lambda>r p. (p = 0) = unavailable r
                            \<and> (if unavailable r then p = 0 else 10 \<le> p \<and> p \<le> 350))
      ?sel (map (\<lambda>r. metric_power (entry_3d strftime r)) ?sel)"
    using each by (simp add: list_all2_map2 list_all2_same)
  then show ?thesis using c(1) stored doc pw by simp
qed

theorem unavailable_power_is_distinguishable_witness:
  "initialised (view (connect fresh_store)) \<and> (0::int) < 1000
   \<and> (\<exists>c doc.
          populate_database (connect fresh_store) (map (entry_3d (\<lambda>t. ''-'')) example_readings)
            1000 None = Inr c
        \<and> map col_power (table_rows (view c)) = [10, 0]
        \<and> create_history_json_3d example_zone 1700090004000000 3 c = Inr doc
        \<and> list_all2 (\<lambda>r p. (p = 0) = unavailable r
                           \<and> (if unavailable r then p = 0 else 10 \<le> p \<and> p \<le> 350))
            (sort_key reading_epoch
               (filter (\<lambda>r. py_int (datetime_timestamp example_zone
                                    (datetime_now example_zone 1700090004000000
                                       - timedelta 3 0 10))
                             < reading_epoch r)
                  example_readings))
            (h_power doc))"
proof -
  have stored: "map (\<lambda>r. if unavailable r then 0 else nearest_in 10 350 (r_power r))
      example_readings = [10, 0]"
    by (simp add: example_readings_def unavailable_def nearest_in_def)
  show ?thesis
    using unavailable_power_is_distinguishable
            [OF fresh_initialised, of 1000 "\<lambda>t. ''-''" example_readings example_zone
               1700090004000000 3]
      fresh_initialised
    unfolding stored by simp
qed

section \<open>The schema\<close>

lemma schema_ok_initialised: "schema_ok db \<Longrightarrow> initialised db"
  by (simp add: schema_ok_def initialised_def)

lemma schema_ok_rows [simp]: "schema_ok (db\<lparr>table_rows := rs\<rparr>) = schema_ok db"
  by (simp add: schema_ok_def)

lemma schema_ok_fold_append [simp]: "schema_ok (fold append_metric ms db) = schema_ok db"
  using initialised_fold_append [of ms db] by (simp add: schema_ok_def initialised_def)

lemma both_ok_connect [simp]: "both_ok (connect db) = schema_ok db"
  by (simp add: both_ok_def)

lemma both_ok_commit: "both_ok c \<Longrightarrow> both_ok (commit c)"
  by (simp add: both_ok_def)

lemma both_ok_begun: "both_ok c \<Longrightarrow> schema_ok w \<Longrightarrow> both_ok \<lparr>disk = disk c, txn = Some w\<rparr>"
  by (simp add: both_ok_def)

lemma create_db_schema_ok:
  assumes "both_ok c"
  shows "create_db_schema c = Inr (commit c)"
  using assms
  by (simp add: create_db_schema_def create_table_if_not_exists_def
      create_index_if_not_exists_def both_ok_def schema_ok_def commit_eq connect_def)

lemma create_db_schema_fresh:
  "create_db_schema (connect empty_database) = Inr (connect fresh_store)"
  by (simp add: create_db_schema_def create_table_if_not_exists_def
      create_index_if_not_exists_def empty_database_def fresh_store_def commit_eq
      has_columns_def gpu_metrics_columns_def connect_def)

lemma insert_batch_both_ok:
  assumes "both_ok c"
  shows "insert_batch ms fault c = Inr c' \<Longrightarrow> both_ok c'"
    and "insert_batch ms fault c = Inl (e, c') \<Longrightarrow> both_ok c'"
proof -
  show "both_ok c'" if "insert_batch ms fault c = Inr c'"
  proof (cases "txn c")
    case None
    then show ?thesis
      using assms that insert_batch_initialised [of c ms fault]
      by (auto simp: both_ok_def schema_ok_initialised split: option.splits if_splits)
  next
    case (Some w)
    then show ?thesis using that by (simp add: insert_batch_def execute_begin_def)
  qed
  show "both_ok c'" if "insert_batch ms fault c = Inl (e, c')"
  proof (cases "txn c")
    case None
    then show ?thesis
      using assms that insert_batch_initialised [of c ms fault]
      by (auto simp: both_ok_def schema_ok_initialised split: option.splits if_splits)
  next
    case (Some w)
    then show ?thesis using that assms by (auto simp: insert_batch_def execute_begin_def)
  qed
qed

lemma insert_batches_both_ok:
  assumes "both_ok c"
  shows "insert_batches starts ms bs fault c = Inr c' \<Longrightarrow> both_ok c'"
    and "insert_batches starts ms bs fault c = Inl (e, c') \<Longrightarrow> both_ok c'"
  using assms
proof (induction starts arbitrary: c)
  case Nil
  { case 1 then show ?case by simp }
  { case 2 then show ?case by simp }
next
  case (Cons i starts)
  { case 1
    then show ?case
      using Cons.IH(1) insert_batch_both_ok(1) [OF 1(2)]
      by (auto simp: Let_def split: sum.splits) }
  { case 2
    then show ?case
      using Cons.IH(2) insert_batch_both_ok [OF 2(2)]
      by (auto simp: Let_def split: sum.splits) }
qed

lemma populate_database_both_ok:
  assumes "both_ok c"
  shows "populate_database c ms batch_size fault = Inr c' \<Longrightarrow> both_ok c'"
    and "populate_database c ms batch_size fault = Inl (e, c') \<Longrightarrow> both_ok c'"
proof -
  let ?c = "connect ((view c)\<lparr>table_rows := []\<rparr>)"
  have init: "initialised (view c)" using assms by (simp add: both_ok_def schema_ok_initialised)
  have ok: "both_ok ?c" using assms by (simp add: both_ok_def)
  have unfold: "populate_database c ms batch_size fault =
      (case py_range (length ms) batch_size of
         Inl e \<Rightarrow> Inl (e, ?c)
       | Inr starts \<Rightarrow> insert_batches starts ms (nat batch_size) fault ?c)"
    using init
    by (simp add: populate_database_def execute_dml_def delete_all_initialised commit_eq Let_def)
  show "both_ok c'" if "populate_database c ms batch_size fault = Inr c'"
    using that ok insert_batches_both_ok(1) [OF ok] unfolding unfold
    by (auto split: sum.splits)
  show "both_ok c'" if "populate_database c ms batch_size fault = Inl (e, c')"
    using that ok insert_batches_both_ok(2) [OF ok] unfolding unfold
    by (auto split: sum.splits)
qed

lemma perform_trim_operation_both_ok:
  assumes "both_ok c"
  shows "perform_trim_operation now c = Inr (c', counts) \<Longrightarrow> both_ok c'"
    and "perform_trim_operation now c = Inl (e, c') \<Longrightarrow> both_ok c'"
proof -
  have init: "initialised (view c)" using assms by (simp add: both_ok_def schema_ok_initialised)
  show "both_ok c'" if "perform_trim_operation now c = Inr (c', counts)"
    using that assms perform_trim_operation_initialised [OF init refl, of now]
    by (auto simp: both_ok_def)
  show "both_ok c'" if "perform_trim_operation now c = Inl (e, c')"
    using that perform_trim_operation_initialised [OF init refl, of now] by simp
qed

lemma reachable_both_ok:
  assumes "reachable c"
  shows "both_ok c"
  using assms
proof (induction rule: reachable.induct)
  case (created c)
  then show ?case
    by (auto simp: create_db_schema_fresh schema_ok_def fresh_store_def)
next
  case (schema_again c c')
  then show ?case by (auto simp: create_db_schema_ok both_ok_commit)
next
  case (schema_failed c e c')
  then show ?case by (simp add: create_db_schema_ok)
next
  case (populated c ms batch_size fault c')
  then show ?case using populate_database_both_ok(1) by blast
next
  case (populate_failed c ms batch_size fault e c')
  then show ?case using populate_database_both_ok(2) by blast
next
  case (batch c ms fault c')
  then show ?case using insert_batch_both_ok(1) by blast
next
  case (batch_failed c ms fault e c')
  then show ?case using insert_batch_both_ok(2) by blast
next
  case (trimmed c now c' counts)
  then show ?case using perform_trim_operation_both_ok(1) by blast
next
  case (trim_failed c now e c')
  then show ?case using perform_trim_operation_both_ok(2) by blast
next
  case (reopened c)
  then show ?case by (simp add: both_ok_def close_def)
qed

text \<open>
  C8. Creating the schema in a new file gives the table \<^verbatim>\<open>gpu_metrics\<close> with exactly the
  columns id, timestamp, timestamp_epoch, temperature, utilization, memory and power, and
  the index on \<^verbatim>\<open>timestamp_epoch\<close>. In every state reachable from there, the committed
  store and the store as the connection reads it have this table and this index, and
  creating the schema again succeeds and leaves the schema and the rows that the
  connection reads as they are.
\<close>

theorem schema_and_index_in_every_reachable_state:
  assumes "reachable c"
  shows "create_db_schema (connect empty_database) =
           Inr (connect \<lparr>table_columns =
                           Some [''id'', ''timestamp'', ''timestamp_epoch'', ''temperature'',
                                 ''utilization'', ''memory'', ''power''],
                         index_on = Some (''gpu_metrics'', [''timestamp_epoch'']),
                         table_rows = [], sequence = 0\<rparr>)
       \<and> table_columns (disk c) =
           Some [''id'', ''timestamp'', ''timestamp_epoch'', ''temperature'', ''utilization'',
                 ''memory'', ''power'']
       \<and> index_on (disk c) = Some (''gpu_metrics'', [''timestamp_epoch''])
       \<and> table_columns (view c) =
           Some [''id'', ''timestamp'', ''timestamp_epoch'', ''temperature'', ''utilization'',
                 ''memory'', ''power'']
       \<and> index_on (view c) = Some (''gpu_metrics'', [''timestamp_epoch''])
       \<and> (\<exists>c'. create_db_schema c = Inr c' \<and> view c' = view c \<and> disk c' = view c)"
  using reachable_both_ok [OF assms] create_db_schema_fresh
  by (simp add: both_ok_def schema_ok_def gpu_metrics_columns_def fresh_store_def
      create_db_schema_ok)

theorem schema_and_index_in_every_reachable_state_witness:
  "reachable (connect example_store)
   \<and> table_columns (disk (connect example_store)) =
       Some [''id'', ''timestamp'', ''timestamp_epoch'', ''temperature'', ''utilization'',
             ''memory'', ''power'']
   \<and> index_on (disk (connect example_store)) = Some (''gpu_metrics'', [''timestamp_epoch''])
   \<and> (\<exists>c'. create_db_schema (connect example_store) = Inr c'
           \<and> view c' = view (connect example_store))"
proof -
  have created: "reachable (connect fresh_store)"
    using create_db_schema_fresh by (rule reachable.created)
  have "populate_database (connect fresh_store) (map row_metric example_rows) 1000 None =
      Inr (connect example_store)"
    using populate_database_ok [OF fresh_initialised, of 1000 "map row_metric example_rows"]
    by (simp add: fresh_store_def example_store_def example_rows_def row_metric_def
        append_metric_def next_id_def)
  then have r: "reachable (connect example_store)"
    using created by (rule reachable.populated [rotated])
  show ?thesis
    using schema_and_index_in_every_reachable_state [OF r] r by blast
qed

section \<open>The static file handler\<close>

lemma takeWhile_eq_replicate:
  "takeWhile (\<lambda>x. x = c) xs = replicate (length (takeWhile (\<lambda>x. x = c) xs)) c"
  by (induction xs) simp_all

lemma split_at_end:
  "xs = rev (dropWhile P (rev xs)) @ rev (takeWhile P (rev xs))"
proof -
  have "rev (rev xs) = rev (takeWhile P (rev xs) @ dropWhile P (rev xs))"
    by (simp only: takeWhile_dropWhile_id)
  then show ?thesis
    by (simp only: rev_rev_ident rev_append)
qed

lemma strip_decompose:
  "\<exists>n m. s = replicate n c @ strip c s @ replicate m c"
proof -
  let ?t = "dropWhile (\<lambda>x. x = c) s"
  let ?n = "length (takeWhile (\<lambda>x. x = c) s)"
  let ?m = "length (takeWhile (\<lambda>x. x = c) (rev ?t))"
  have "s = takeWhile (\<lambda>x. x = c) s @ ?t"
    by simp
  then have s: "s = replicate ?n c @ ?t"
    using takeWhile_eq_replicate [of c s] by simp
  have "rev (takeWhile (\<lambda>x. x = c) (rev ?t)) = replicate ?m c"
    using takeWhile_eq_replicate [of c "rev ?t"] by (metis rev_replicate)
  then have t: "?t = strip c s @ replicate ?m c"
    using split_at_end [of ?t "\<lambda>x. x = c"] by (simp add: strip_def)
  have "s = replicate ?n c @ strip c s @ replicate ?m c"
    using s t by simp
  then show ?thesis by blast
qed

lemma strip_no_leading: "strip c s \<noteq> [] \<Longrightarrow> hd (strip c s) \<noteq> c"
proof -
  assume ne: "strip c s \<noteq> []"
  let ?t = "dropWhile (\<lambda>x. x = c) s"
  let ?u = "dropWhile (\<lambda>x. x = c) (rev ?t)"
  have une: "?u \<noteq> []" using ne by (simp add: strip_def)
  have tne: "?t \<noteq> []"
  proof
    assume "?t = []"
    then have "?u = []" by (simp only: rev.simps dropWhile.simps)
    then show False using une by (simp only:)
  qed
  then have h: "hd ?t \<noteq> c" using hd_dropWhile [of "\<lambda>x. x = c" s] by simp
  have "hd ?t = hd (rev ?u @ rev (takeWhile (\<lambda>x. x = c) (rev ?t)))"
    using split_at_end [of ?t "\<lambda>x. x = c"] by simp
  also have "\<dots> = hd (rev ?u)" using une by simp
  finally show ?thesis using h by (simp add: strip_def)
qed

lemma strip_no_trailing: "strip c s \<noteq> [] \<Longrightarrow> last (strip c s) \<noteq> c"
proof -
  assume ne: "strip c s \<noteq> []"
  let ?u = "dropWhile (\<lambda>x. x = c) (rev (dropWhile (\<lambda>x. x = c) s))"
  have une: "?u \<noteq> []" using ne by (simp add: strip_def)
  then have "hd ?u \<noteq> c" using hd_dropWhile [of "\<lambda>x. x = c"] by blast
  then show ?thesis using une by (simp add: strip_def last_rev)
qed

text \<open>
  C9. For every request path and every state of the file system, \<^verbatim>\<open>handle_static\<close>
  drops the leading and the trailing slashes of the path and nothing else, takes
  \<^verbatim>\<open>gpu-stats.html\<close> when nothing is left, and answers with that file when it exists and
  with status 404 when it does not. Nothing checks where the path leads: the file is
  served whenever the location that the path resolves to exists. With the working
  directory \<^verbatim>\<open>/opt/gpu-monitor\<close>, the request path \<^verbatim>\<open>/../../etc/passwd\<close>, which has
  \<^verbatim>\<open>..\<close> segments, is answered with the file \<^verbatim>\<open>/etc/passwd\<close>, which lies outside
  that directory.
\<close>

theorem handle_static_serves_without_containment:
  "(\<exists>n m. path = replicate n CHR ''/'' @ strip CHR ''/'' path @ replicate m CHR ''/'')
   \<and> (strip CHR ''/'' path = []
        \<or> hd (strip CHR ''/'' path) \<noteq> CHR ''/'' \<and> last (strip CHR ''/'' path) \<noteq> CHR ''/'')
   \<and> served_path path =
        (if strip CHR ''/'' path = [] then ''gpu-stats.html'' else strip CHR ''/'' path)
   \<and> handle_static exists path =
        (if exists (served_path path) then FileResponse (served_path path) else Response 404)
   \<and> handle_static (os_path_exists files cwd) path =
        (if resolve cwd (served_path path) \<in> files then FileResponse (served_path path)
         else Response 404)
   \<and> ''..'' \<in> set (split_path ''/../../etc/passwd'')
   \<and> handle_static (os_path_exists {[''etc'', ''passwd'']} [''opt'', ''gpu-monitor''])
        ''/../../etc/passwd'' = FileResponse ''../../etc/passwd''
   \<and> resolve [''opt'', ''gpu-monitor''] ''../../etc/passwd'' = [''etc'', ''passwd'']
   \<and> \<not> inside [''opt'', ''gpu-monitor''] [''etc'', ''passwd'']"
proof -
  have general: "handle_static exists path =
        (if exists (served_path path) then FileResponse (served_path path) else Response 404)"
    by (simp add: handle_static_def served_path_def Let_def)
  have edge: "strip CHR ''/'' path = []
        \<or> hd (strip CHR ''/'' path) \<noteq> CHR ''/'' \<and> last (strip CHR ''/'' path) \<noteq> CHR ''/''"
    using strip_no_leading [of "CHR ''/''" path] strip_no_trailing [of "CHR ''/''" path]
    by blast
  have seg: "''..'' \<in> set (split_path ''/../../etc/passwd'')"
    by simp
  have stripped: "strip CHR ''/'' ''/../../etc/passwd'' = ''../../etc/passwd''"
    by (simp add: strip_def)
  have res: "resolve [''opt'', ''gpu-monitor''] ''../../etc/passwd'' = [''etc'', ''passwd'']"
    by (simp add: resolve_def follow_def)
  have served: "handle_static (os_path_exists {[''etc'', ''passwd'']} [''opt'', ''gpu-monitor''])
        ''/../../etc/passwd'' = FileResponse ''../../etc/passwd''"
    by (simp add: handle_static_def stripped os_path_exists_def res)
  have out: "\<not> inside [''opt'', ''gpu-monitor''] [''etc'', ''passwd'']"
    by (simp add: inside_def)
  have anywhere: "handle_static (os_path_exists files cwd) path =
        (if resolve cwd (served_path path) \<in> files then FileResponse (served_path path)
         else Response 404)"
    by (simp add: handle_static_def served_path_def os_path_exists_def Let_def)
  show ?thesis
    using strip_decompose [of path "CHR ''/''"] general anywhere edge seg served res out
    by (simp add: served_path_def)
qed

section \<open>The installer\<close>

text \<open>
  C10. In every environment, \<^verbatim>\<open>check_prerequisites\<close> raises \<^verbatim>\<open>AttributeError\<close> and has
  run no command before: neither the class nor the instance has an \<^verbatim>\<open>ensure_path\<close>. So
  \<^verbatim>\<open>main\<close> with \<^verbatim>\<open>--start\<close>, when it gets as far as \<^verbatim>\<open>check_prerequisites\<close>, ends
  with the uncaught \<^verbatim>\<open>AttributeError\<close>; before that it ends only with the failure of
  the logging setup or with exit status 1 for a user who is not root. It never installs.
\<close>

theorem check_prerequisites_always_raises:
  "check_prerequisites env = (Inl AttributeError, [])
   \<and> main_start env =
       (if \<not> log_writable env then Uncaught PermissionError
        else if euid env \<noteq> 0 then Exit 1
        else Uncaught AttributeError)
   \<and> main_start env \<noteq> Installed"
proof -
  have missing: "\<not> has_attribute ''ensure_path''"
    by (simp add: has_attribute_def instance_attributes_def class_methods_def)
  then have raises: "check_prerequisites env = (Inl AttributeError, [])"
    by (simp add: check_prerequisites_def)
  then show ?thesis
    by (simp add: main_start_def)
qed

end
